theory Spec2Isabelle
  imports Main
begin

section \<open>Values of the host language\<close>

text \<open>
  The runtime passes caller data through to the document store without looking inside it,
  apart from comparing a value with \<^verbatim>\<open>undefined\<close>, \<^verbatim>\<open>true\<close> or the string
  \<^verbatim>\<open>'serverTimestamp'\<close>. A value is therefore one of the primitives, an array, a plain
  object (its own properties, in insertion order), an opaque host object (a Date, a
  document snapshot used as a cursor), a member that every plain object inherits from
  \<^verbatim>\<open>Object.prototype\<close>, or a sentinel produced by one of the store's five sentinel
  factories. Numbers are only carried, never computed with.
\<close>

datatype jsval =
    JUndefined
  | JNull
  | JBool bool
  | JNum int
  | JStr string
  | JArr "jsval list"
  | JObj "(string \<times> jsval) list"
  | JHost nat
  | JInherited string
  | FV_serverTimestamp
  | FV_deleteField
  | FV_increment int
  | FV_arrayUnion "jsval list"
  | FV_arrayRemove "jsval list"

type_synonym js_object = "(string \<times> jsval) list"

text \<open>
  The names under which every plain object finds a member of \<^verbatim>\<open>Object.prototype\<close>
  when it has no property of its own under that name.
\<close>

definition inherited_names :: "string list" where
  "inherited_names =
     [''constructor'', ''toString'', ''toLocaleString'', ''valueOf'', ''hasOwnProperty'',
      ''isPrototypeOf'', ''propertyIsEnumerable'', ''__proto__'', ''__defineGetter__'',
      ''__defineSetter__'', ''__lookupGetter__'', ''__lookupSetter__'']"

text \<open>
  Reading a property, \<^verbatim>\<open>obj[k]\<close>: the object's own property if it has one (which may
  hold \<^verbatim>\<open>undefined\<close>), otherwise the inherited member if the name is one of the
  inherited names, otherwise \<^verbatim>\<open>undefined\<close>.
\<close>

fun js_get :: "js_object \<Rightarrow> string \<Rightarrow> jsval" where
  "js_get [] k = (if k \<in> set inherited_names then JInherited k else JUndefined)"
| "js_get ((k', v) # ps) k = (if k' = k then v else js_get ps k)"

text \<open>The object has a property of its own under the name, whatever its value.\<close>

fun js_in :: "string \<Rightarrow> js_object \<Rightarrow> bool" where
  "js_in k [] = False"
| "js_in k ((k', v) # ps) = (k' = k \<or> js_in k ps)"

text \<open>The \<^verbatim>\<open>in\<close> operator: a property of its own, or an inherited member.\<close>

definition js_has :: "string \<Rightarrow> js_object \<Rightarrow> bool" where
  "js_has k obj = (js_in k obj \<or> k \<in> set inherited_names)"

text \<open>
  Writing a property (\<^verbatim>\<open>obj[k] = v\<close>, or a computed key at the end of an object
  literal that starts with a spread): an existing property keeps its place and takes the
  new value, a new one is added at the end. (The host language lists names that look like
  array indices before the others; that reordering is not modelled.)
\<close>

fun js_put :: "string \<Rightarrow> jsval \<Rightarrow> js_object \<Rightarrow> js_object" where
  "js_put k v [] = [(k, v)]"
| "js_put k v ((k', v') # ps) = (if k' = k then (k, v) # ps else (k', v') # js_put k v ps)"

text \<open>\<^verbatim>\<open>Object.keys(obj)\<close>.\<close>

definition js_keys :: "js_object \<Rightarrow> string list" where
  "js_keys obj = map fst obj"

section \<open>Handles and calls of the document store\<close>

text \<open>
  A handle of the store is written as the call that produced it: \<open>Collection p c\<close> is what
  \<^verbatim>\<open>collection(p, c)\<close> returned, \<open>Document r i\<close> what \<^verbatim>\<open>doc(r, i)\<close> returned.
\<close>

datatype native_ref =
    Firestore string
  | Collection native_ref string
  | Document native_ref string

datatype WhereFilterOp =
    Op_lt | Op_le | Op_eq | Op_ne | Op_ge | Op_gt
  | Op_array_contains | Op_in | Op_array_contains_any | Op_not_in

datatype OrderByDirection = Asc | Desc

text \<open>The store's constraint objects, again written as the call that made them.\<close>

datatype QueryConstraint =
    N_where string WhereFilterOp jsval
  | N_orderBy string OrderByDirection
  | N_limit int
  | N_limitToLast int
  | N_startAt "jsval list"
  | N_startAfter "jsval list"
  | N_endAt "jsval list"
  | N_endBefore "jsval list"

datatype Query = N_query native_ref "QueryConstraint list"

text \<open>
  The calls into the store's library whose number or order a statement below speaks
  about, and the diagnostic channel, in the order made. (The other four sentinel factories
  are called by the update builder only; their result records the call.)
\<close>

datatype native_call =
    Call_collection native_ref string
  | Call_doc native_ref string
  | Call_addDoc native_ref js_object
  | Call_setDoc native_ref js_object js_object
  | Call_deleteDoc native_ref
  | Call_getDoc native_ref
  | Call_updateDoc native_ref js_object
  | Call_serverTimestamp
  | Console_warn string

text \<open>Whether a call crosses to the remote service (the others only build values).\<close>

fun is_store_call :: "native_call \<Rightarrow> bool" where
  "is_store_call (Call_addDoc r d) = True"
| "is_store_call (Call_setDoc r d opts) = True"
| "is_store_call (Call_deleteDoc r) = True"
| "is_store_call (Call_getDoc r) = True"
| "is_store_call (Call_updateDoc r d) = True"
| "is_store_call c = False"

datatype store_error = StoreError string

record DocumentSnapshot =
  snap_exists :: bool
  snap_data :: jsval

text \<open>
  The remote service: what each asynchronous call settles with (\<open>Inl\<close> is a rejection),
  and the \<^verbatim>\<open>id\<close> property of a collection handle.
\<close>

record store =
  addDoc :: "native_ref \<Rightarrow> js_object \<Rightarrow> store_error + native_ref"
  setDoc :: "native_ref \<Rightarrow> js_object \<Rightarrow> js_object \<Rightarrow> store_error + unit"
  deleteDoc :: "native_ref \<Rightarrow> store_error + unit"
  getDoc :: "native_ref \<Rightarrow> store_error + DocumentSnapshot"
  updateDoc :: "native_ref \<Rightarrow> js_object \<Rightarrow> store_error + unit"
  ref_id :: "native_ref \<Rightarrow> string"

text \<open>
  The store's library, whose functions are called synchronously and may throw instead of
  returning (\<^verbatim>\<open>limit(0)\<close>, \<^verbatim>\<open>doc(ref, '')\<close>). A call that returns gives the value
  written as that call; \<open>Some e\<close> says that the call throws \<open>e\<close>. The library is a
  parameter: nothing is assumed about which calls it refuses.
\<close>

record library =
  constraint_refused :: "QueryConstraint \<Rightarrow> string option"
  query_refused :: "Query \<Rightarrow> string option"
  doc_refused :: "native_ref \<Rightarrow> string \<Rightarrow> string option"
  collection_refused :: "native_ref \<Rightarrow> string \<Rightarrow> string option"

section \<open>Constraint definitions of the query builder\<close>

datatype limit_type = T_limit | T_limitToLast

datatype cursor_type = T_startAt | T_startAfter | T_endAt | T_endBefore

text \<open>
  \<open>QueryConstraintDefinition\<close>: the four interfaces of the source. \<open>UntypedConstraint\<close>
  stands for a value whose \<^verbatim>\<open>type\<close> is none of the eight tags, which only a cast can
  put into the list; it is what the \<^verbatim>\<open>default\<close> branch of \<^verbatim>\<open>buildQuery\<close> receives.
\<close>

datatype QueryConstraintDefinition =
    WhereConstraint string WhereFilterOp jsval
  | OrderByConstraint string OrderByDirection
  | LimitConstraint limit_type int
  | CursorConstraint cursor_type jsval "jsval list"
  | UntypedConstraint string

section \<open>Objects and the heap\<close>

text \<open>
  Builders and resolvers are objects with identity, and a builder holds its accumulated
  array or record by reference. The heap is the list of all objects allocated so far; an
  address is an index into it, and allocation appends.
\<close>

type_synonym addr = nat

datatype class_ref = Class string

text \<open>
  \<open>FieldSchema\<close>: the optional \<^verbatim>\<open>defaultValue\<close>, as reading it gives it
  (\<open>JUndefined\<close> when the property is absent).
\<close>

datatype FieldSchema = FieldSchema (defaultValue: jsval)

text \<open>
  \<open>CollectionSchema\<close>: the fields, and the optional record of sub-collections, each
  entry with its optional nested schema and its \<^verbatim>\<open>collectionClass\<close> (\<open>None\<close>
  when the entry has none, or a falsy one).
\<close>

datatype CollectionSchema =
  CollectionSchema
    (fields: "(string \<times> FieldSchema) list")
    (subCollections: "(string \<times> CollectionSchema option \<times> class_ref option) list option")

text \<open>The fields of a \<open>ClientBaseCollectionRef\<close>, and the class it is an instance of.\<close>

record collection_ref =
  cls :: class_ref
  ref :: native_ref
  firestore :: native_ref
  collectionId :: string
  schema :: "CollectionSchema option"

text \<open>
  The objects: an array of constraint definitions; a record of updates; a query builder
  with its \<^verbatim>\<open>firestore\<close>, \<^verbatim>\<open>collectionRef\<close> and the address of its
  \<^verbatim>\<open>constraintDefinitions\<close>; an update builder with its \<^verbatim>\<open>_docRef\<close> and the
  address of its \<^verbatim>\<open>_updateData\<close>; a collection resolver.
\<close>

datatype obj =
    ArrayObj "QueryConstraintDefinition list"
  | RecordObj js_object
  | QueryBuilderObj native_ref native_ref addr
  | UpdateBuilderObj native_ref addr
  | CollectionRefObj collection_ref

type_synonym heap = "obj list"

definition lookup :: "heap \<Rightarrow> addr \<Rightarrow> obj option" where
  "lookup h a = (if a < length h then Some (h ! a) else None)"

definition alloc :: "heap \<Rightarrow> obj \<Rightarrow> heap \<times> addr" where
  "alloc h ob = (h @ [ob], length h)"

definition store_at :: "heap \<Rightarrow> addr \<Rightarrow> obj \<Rightarrow> heap" where
  "store_at h a ob = h[a := ob]"

section \<open>The query builder\<close>

text \<open>
  The constructor allocates the object and, for its field initialiser, an empty array
  (which of the two addresses is the smaller is immaterial).
\<close>

definition new_QueryBuilder :: "heap \<Rightarrow> native_ref \<Rightarrow> native_ref \<Rightarrow> heap \<times> addr" where
  "new_QueryBuilder h fs collectionRef =
     (let (h1, arr) = alloc h (ArrayObj [])
      in alloc h1 (QueryBuilderObj fs collectionRef arr))"

text \<open>The contents of \<^verbatim>\<open>this.constraintDefinitions\<close>, read through both references.\<close>

definition constraintDefinitions :: "heap \<Rightarrow> addr \<Rightarrow> QueryConstraintDefinition list option" where
  "constraintDefinitions h this =
     (case lookup h this of
        Some (QueryBuilderObj fs cr arr) \<Rightarrow>
          (case lookup h arr of Some (ArrayObj ds) \<Rightarrow> Some ds | _ \<Rightarrow> None)
      | _ \<Rightarrow> None)"

text \<open>
  \<open>addConstraintDefinition\<close>: a new object with the receiver's prototype takes a copy of
  all the receiver's fields (so for a moment both objects point at one array), then a new
  array holding the old elements and the definition is allocated and stored in the new
  object alone. \<open>None\<close> is a receiver that is no query builder, which the host language
  excludes.
\<close>

definition addConstraintDefinition ::
    "heap \<Rightarrow> addr \<Rightarrow> QueryConstraintDefinition \<Rightarrow> (heap \<times> addr) option" where
  "addConstraintDefinition h this definition =
     (case lookup h this of
        Some (QueryBuilderObj fs cr arr) \<Rightarrow>
          (case lookup h arr of
             Some (ArrayObj ds) \<Rightarrow>
               (let (h1, newBuilder) = alloc h (QueryBuilderObj fs cr arr);
                    (h2, arr') = alloc h1 (ArrayObj (ds @ [definition]))
                in Some (store_at h2 newBuilder (QueryBuilderObj fs cr arr'), newBuilder))
           | _ \<Rightarrow> None)
      | _ \<Rightarrow> None)"

text \<open>
  The chain methods. A method whose name starts with an underscore in the source
  (\<^verbatim>\<open>_where\<close>, \<^verbatim>\<open>_set\<close>, \<^verbatim>\<open>_increment\<close>, ...) is named here with the prefix
  \<open>p_\<close>.
\<close>

definition p_where :: "heap \<Rightarrow> addr \<Rightarrow> string \<Rightarrow> WhereFilterOp \<Rightarrow> jsval \<Rightarrow> (heap \<times> addr) option" where
  "p_where h this fieldPath opStr v =
     addConstraintDefinition h this (WhereConstraint fieldPath opStr v)"

text \<open>The direction is optional and defaults to ascending.\<close>

definition orderBy :: "heap \<Rightarrow> addr \<Rightarrow> string \<Rightarrow> OrderByDirection option \<Rightarrow> (heap \<times> addr) option" where
  "orderBy h this fieldPath directionStr =
     addConstraintDefinition h this
       (OrderByConstraint fieldPath (case directionStr of None \<Rightarrow> Asc | Some d \<Rightarrow> d))"

definition limit :: "heap \<Rightarrow> addr \<Rightarrow> int \<Rightarrow> (heap \<times> addr) option" where
  "limit h this limitCount = addConstraintDefinition h this (LimitConstraint T_limit limitCount)"

definition limitToLast :: "heap \<Rightarrow> addr \<Rightarrow> int \<Rightarrow> (heap \<times> addr) option" where
  "limitToLast h this limitCount =
     addConstraintDefinition h this (LimitConstraint T_limitToLast limitCount)"

definition startAt :: "heap \<Rightarrow> addr \<Rightarrow> jsval \<Rightarrow> jsval list \<Rightarrow> (heap \<times> addr) option" where
  "startAt h this snapshotOrFieldValue fieldValues =
     addConstraintDefinition h this (CursorConstraint T_startAt snapshotOrFieldValue fieldValues)"

definition startAfter :: "heap \<Rightarrow> addr \<Rightarrow> jsval \<Rightarrow> jsval list \<Rightarrow> (heap \<times> addr) option" where
  "startAfter h this snapshotOrFieldValue fieldValues =
     addConstraintDefinition h this (CursorConstraint T_startAfter snapshotOrFieldValue fieldValues)"

definition endBefore :: "heap \<Rightarrow> addr \<Rightarrow> jsval \<Rightarrow> jsval list \<Rightarrow> (heap \<times> addr) option" where
  "endBefore h this snapshotOrFieldValue fieldValues =
     addConstraintDefinition h this (CursorConstraint T_endBefore snapshotOrFieldValue fieldValues)"

definition endAt :: "heap \<Rightarrow> addr \<Rightarrow> jsval \<Rightarrow> jsval list \<Rightarrow> (heap \<times> addr) option" where
  "endAt h this snapshotOrFieldValue fieldValues =
     addConstraintDefinition h this (CursorConstraint T_endAt snapshotOrFieldValue fieldValues)"






section \<open>The update builder\<close>

definition new_UpdateBuilder :: "heap \<Rightarrow> native_ref \<Rightarrow> heap \<times> addr" where
  "new_UpdateBuilder h docRef =
     (let (h1, d) = alloc h (RecordObj [])
      in alloc h1 (UpdateBuilderObj docRef d))"

text \<open>The contents of \<^verbatim>\<open>this._updateData\<close>, read through both references.\<close>

definition updateData :: "heap \<Rightarrow> addr \<Rightarrow> js_object option" where
  "updateData h this =
     (case lookup h this of
        Some (UpdateBuilderObj docRef d) \<Rightarrow>
          (case lookup h d of Some (RecordObj upd) \<Rightarrow> Some upd | _ \<Rightarrow> None)
      | _ \<Rightarrow> None)"

definition docRef_of :: "heap \<Rightarrow> addr \<Rightarrow> native_ref option" where
  "docRef_of h this =
     (case lookup h this of Some (UpdateBuilderObj docRef d) \<Rightarrow> Some docRef | _ \<Rightarrow> None)"

text \<open>
  \<open>_set\<close>: as in the query builder, a copy of the receiver, then a new record made of the
  old record's properties followed by the computed key, stored in the copy alone.
\<close>

definition p_set :: "heap \<Rightarrow> addr \<Rightarrow> string \<Rightarrow> jsval \<Rightarrow> (heap \<times> addr) option" where
  "p_set h this fieldPath v =
     (case lookup h this of
        Some (UpdateBuilderObj docRef d) \<Rightarrow>
          (case lookup h d of
             Some (RecordObj upd) \<Rightarrow>
               (let (h1, newBuilder) = alloc h (UpdateBuilderObj docRef d);
                    (h2, d') = alloc h1 (RecordObj (js_put fieldPath v upd))
                in Some (store_at h2 newBuilder (UpdateBuilderObj docRef d'), newBuilder))
           | _ \<Rightarrow> None)
      | _ \<Rightarrow> None)"

definition p_getIncrementFieldValue :: "int \<Rightarrow> jsval" where
  "p_getIncrementFieldValue v = FV_increment v"

definition p_getArrayUnionFieldValue :: "jsval list \<Rightarrow> jsval" where
  "p_getArrayUnionFieldValue vs = FV_arrayUnion vs"

definition p_getArrayRemoveFieldValue :: "jsval list \<Rightarrow> jsval" where
  "p_getArrayRemoveFieldValue vs = FV_arrayRemove vs"

definition p_getServerTimestampFieldValue :: jsval where
  "p_getServerTimestampFieldValue = FV_serverTimestamp"

definition p_getDeleteFieldValue :: jsval where
  "p_getDeleteFieldValue = FV_deleteField"

definition p_increment :: "heap \<Rightarrow> addr \<Rightarrow> string \<Rightarrow> int \<Rightarrow> (heap \<times> addr) option" where
  "p_increment h this fieldPath v = p_set h this fieldPath (p_getIncrementFieldValue v)"

definition p_arrayUnion :: "heap \<Rightarrow> addr \<Rightarrow> string \<Rightarrow> jsval list \<Rightarrow> (heap \<times> addr) option" where
  "p_arrayUnion h this fieldPath vs = p_set h this fieldPath (p_getArrayUnionFieldValue vs)"

definition p_arrayRemove :: "heap \<Rightarrow> addr \<Rightarrow> string \<Rightarrow> jsval list \<Rightarrow> (heap \<times> addr) option" where
  "p_arrayRemove h this fieldPath vs = p_set h this fieldPath (p_getArrayRemoveFieldValue vs)"

definition p_serverTimestamp :: "heap \<Rightarrow> addr \<Rightarrow> string \<Rightarrow> (heap \<times> addr) option" where
  "p_serverTimestamp h this fieldPath = p_set h this fieldPath p_getServerTimestampFieldValue"

definition p_deleteField :: "heap \<Rightarrow> addr \<Rightarrow> string \<Rightarrow> (heap \<times> addr) option" where
  "p_deleteField h this fieldPath = p_set h this fieldPath p_getDeleteFieldValue"

text \<open>
  \<open>commit\<close> returns the calls it made and what its promise settles with: with no key in the
  record it warns and resolves, otherwise it settles as the one \<^verbatim>\<open>updateDoc\<close> call does.
\<close>

definition commit :: "store \<Rightarrow> heap \<Rightarrow> addr \<Rightarrow> (native_call list \<times> (store_error + unit)) option" where
  "commit S h this =
     (case lookup h this of
        Some (UpdateBuilderObj docRef d) \<Rightarrow>
          (case lookup h d of
             Some (RecordObj upd) \<Rightarrow>
               Some (if length (js_keys upd) = 0
                     then ([Console_warn ''Update commit called with no changes specified.''], Inr ())
                     else ([Call_updateDoc docRef upd], updateDoc S docRef upd))
           | _ \<Rightarrow> None)
      | _ \<Rightarrow> None)"

section \<open>The collection resolver\<close>

text \<open>
  The constructor asks the store for the collection handle, under the parent document when
  one is given and under the store root otherwise, and allocates the instance.
\<close>

definition new_CollectionRef ::
    "heap \<Rightarrow> class_ref \<Rightarrow> native_ref \<Rightarrow> string \<Rightarrow> CollectionSchema option \<Rightarrow> native_ref option
      \<Rightarrow> native_call list \<times> heap \<times> addr" where
  "new_CollectionRef h c fs cid sc parentRef =
     (let parent = (case parentRef of Some p \<Rightarrow> p | None \<Rightarrow> fs);
          this = \<lparr>cls = c, ref = Collection parent cid, firestore = fs,
                  collectionId = cid, schema = sc\<rparr>;
          (h1, a) = alloc h (CollectionRefObj this)
      in ([Call_collection parent cid], h1, a))"

text \<open>
  The fields of a resolver are assigned in the constructor and only read afterwards, so the
  methods below take the receiver's fields as a value.
\<close>

text \<open>
  \<open>doc\<close>, for an id that the library accepts: the call made and the handle it gives. In the
  asynchronous methods below an id that the library refuses ends in a rejection like any
  other failure of the call, and the store's answer for the handle stands for both;
  \<open>subCollection\<close>, which is synchronous, asks the library itself.
\<close>

definition coll_doc :: "collection_ref \<Rightarrow> string \<Rightarrow> native_call list \<times> native_ref" where
  "coll_doc this i = ([Call_doc (ref this) i], Document (ref this) i)"

text \<open>
  The loop of \<open>applyDefaults\<close> over the schema's fields, on the copy of the payload; the
  calls of the server-timestamp factory are collected.
\<close>

fun applyDefaults_loop ::
    "(string \<times> FieldSchema) list \<Rightarrow> js_object \<Rightarrow> native_call list \<Rightarrow> js_object \<times> native_call list" where
  "applyDefaults_loop [] dataWithDefaults tr = (dataWithDefaults, tr)"
| "applyDefaults_loop ((fieldName, fieldDef) # rest) dataWithDefaults tr =
     (if defaultValue fieldDef = JStr ''serverTimestamp''
         \<and> js_get dataWithDefaults fieldName = JUndefined
      then applyDefaults_loop rest (js_put fieldName FV_serverTimestamp dataWithDefaults)
             (tr @ [Call_serverTimestamp])
      else if defaultValue fieldDef \<noteq> JUndefined
         \<and> defaultValue fieldDef \<noteq> JStr ''serverTimestamp''
         \<and> js_get dataWithDefaults fieldName = JUndefined
      then applyDefaults_loop rest (js_put fieldName (defaultValue fieldDef) dataWithDefaults) tr
      else applyDefaults_loop rest dataWithDefaults tr)"

definition applyDefaults :: "collection_ref \<Rightarrow> js_object \<Rightarrow> js_object \<times> native_call list" where
  "applyDefaults this data =
     (case schema this of
        Some sc \<Rightarrow> applyDefaults_loop (CollectionSchema.fields sc) data []
      | None \<Rightarrow> (data, []))"

definition coll_add ::
    "store \<Rightarrow> collection_ref \<Rightarrow> js_object \<Rightarrow> native_call list \<times> (store_error + native_ref)" where
  "coll_add S this data =
     (let (dataToWrite, tr) = applyDefaults this data
      in (tr @ [Call_addDoc (ref this) dataToWrite], addDoc S (ref this) dataToWrite))"

text \<open>
  \<open>set\<close>: the options are absent or an object. \<open>isMerge\<close> holds when the options exist and
  either have a \<^verbatim>\<open>merge\<close> property that is \<^verbatim>\<open>true\<close> or have a \<^verbatim>\<open>mergeFields\<close>
  property.
\<close>

definition isMerge :: "js_object option \<Rightarrow> bool" where
  "isMerge options =
     (case options of
        None \<Rightarrow> False
      | Some opts \<Rightarrow>
          (js_has ''merge'' opts \<and> js_get opts ''merge'' = JBool True)
            \<or> js_has ''mergeFields'' opts)"

definition coll_set ::
    "store \<Rightarrow> collection_ref \<Rightarrow> string \<Rightarrow> js_object \<Rightarrow> js_object option
      \<Rightarrow> native_call list \<times> (store_error + unit)" where
  "coll_set S this i data options =
     (let (tr1, docRef) = coll_doc this i;
          (dataToWrite, tr2) = (if \<not> isMerge options then applyDefaults this data else (data, []));
          opts = (case options of Some opts \<Rightarrow> opts | None \<Rightarrow> [])
      in (tr1 @ tr2 @ [Call_setDoc docRef dataToWrite opts], setDoc S docRef dataToWrite opts))"

definition coll_delete ::
    "store \<Rightarrow> collection_ref \<Rightarrow> string \<Rightarrow> native_call list \<times> (store_error + unit)" where
  "coll_delete S this i =
     (let (tr1, docRef) = coll_doc this i
      in (tr1 @ [Call_deleteDoc docRef], deleteDoc S docRef))"

text \<open>\<open>get\<close>: a rejection of the read is passed on; a snapshot is turned into a value.\<close>

definition coll_get ::
    "store \<Rightarrow> collection_ref \<Rightarrow> string \<Rightarrow> native_call list \<times> (store_error + jsval)" where
  "coll_get S this i =
     (let (tr1, docRef) = coll_doc this i
      in (tr1 @ [Call_getDoc docRef],
          case getDoc S docRef of
            Inl e \<Rightarrow> Inl e
          | Inr snapshot \<Rightarrow> Inr (if snap_exists snapshot then snap_data snapshot else JUndefined)))"

text \<open>
  \<open>subCollection\<close>. \<open>subCollectionDef\<close> is \<^verbatim>\<open>this.schema?.subCollections?.[id]\<close>, which the
  source reads for its first check and again for the definition: the declared entry, or,
  for an undeclared name that is one of the inherited names, the inherited member, which
  is truthy and has neither a \<^verbatim>\<open>schema\<close> nor a \<^verbatim>\<open>collectionClass\<close>.
\<close>

definition subCollectionDef ::
    "collection_ref \<Rightarrow> string \<Rightarrow> (CollectionSchema option \<times> class_ref option) option" where
  "subCollectionDef this subCollectionId =
     (case schema this of
        None \<Rightarrow> None
      | Some sc \<Rightarrow>
          (case subCollections sc of
             None \<Rightarrow> None
           | Some subs \<Rightarrow>
               (case map_of subs subCollectionId of
                  Some entry \<Rightarrow> Some entry
                | None \<Rightarrow>
                    if subCollectionId \<in> set inherited_names then Some (None, None) else None)))"

text \<open>
  What \<open>subCollection\<close> can throw: its own two errors, or whatever \<^verbatim>\<open>doc\<close> or the
  \<^verbatim>\<open>collection\<close> call of the constructor throws.
\<close>

datatype thrown = Error string | Library_error string

definition quoted :: "string \<Rightarrow> string" where
  "quoted s = [CHR 0x27] @ s @ [CHR 0x27]"

definition not_found_message :: "string \<Rightarrow> string \<Rightarrow> string" where
  "not_found_message subCollectionId owner =
     ''Sub-collection '' @ quoted subCollectionId
       @ '' not found in schema for collection '' @ quoted owner"

definition class_missing_message :: "string \<Rightarrow> string \<Rightarrow> string" where
  "class_missing_message subCollectionId owner =
     ''Collection class definition missing for sub-collection '' @ quoted subCollectionId
       @ '' in schema for collection '' @ quoted owner"

text \<open>
  The two checks throw before anything is called. Then \<^verbatim>\<open>doc\<close> is called for the
  parent document, and the entry's class is instantiated, whose constructor calls
  \<^verbatim>\<open>collection\<close>; either call may throw.
\<close>

definition subCollection ::
    "library \<Rightarrow> store \<Rightarrow> heap \<Rightarrow> collection_ref \<Rightarrow> string \<Rightarrow> string \<Rightarrow> CollectionSchema option
      \<Rightarrow> native_call list \<times> (thrown + heap \<times> addr)" where
  "subCollection L S h this parentId subCollectionId subSchema =
     (case subCollectionDef this subCollectionId of
        None \<Rightarrow> ([], Inl (Error (not_found_message subCollectionId (ref_id S (ref this)))))
      | Some (defSchema, ResolvedSubCollectionClass) \<Rightarrow>
          (case ResolvedSubCollectionClass of
             None \<Rightarrow> ([], Inl (Error (class_missing_message subCollectionId (ref_id S (ref this)))))
           | Some c \<Rightarrow>
               (case doc_refused L (ref this) parentId of
                  Some e \<Rightarrow> ([Call_doc (ref this) parentId], Inl (Library_error e))
                | None \<Rightarrow>
                    (let (tr1, parentDocRef) = coll_doc this parentId
                     in (case collection_refused L parentDocRef subCollectionId of
                           Some e \<Rightarrow>
                             (tr1 @ [Call_collection parentDocRef subCollectionId],
                              Inl (Library_error e))
                         | None \<Rightarrow>
                             (let (tr2, h', a) =
                                    new_CollectionRef h c (firestore this) subCollectionId
                                      defSchema (Some parentDocRef)
                              in (tr1 @ tr2, Inr (h', a))))))))"

section \<open>Chains of calls\<close>

text \<open>A call of one of the query builder's chain methods, with its arguments.\<close>

datatype query_method =
    M_where string WhereFilterOp jsval
  | M_orderBy string "OrderByDirection option"
  | M_limit int
  | M_limitToLast int
  | M_startAt jsval "jsval list"
  | M_startAfter jsval "jsval list"
  | M_endAt jsval "jsval list"
  | M_endBefore jsval "jsval list"

fun call_query :: "heap \<Rightarrow> addr \<Rightarrow> query_method \<Rightarrow> (heap \<times> addr) option" where
  "call_query h b (M_where f opStr v) = p_where h b f opStr v"
| "call_query h b (M_orderBy f d) = orderBy h b f d"
| "call_query h b (M_limit n) = limit h b n"
| "call_query h b (M_limitToLast n) = limitToLast h b n"
| "call_query h b (M_startAt x xs) = startAt h b x xs"
| "call_query h b (M_startAfter x xs) = startAfter h b x xs"
| "call_query h b (M_endAt x xs) = endAt h b x xs"
| "call_query h b (M_endBefore x xs) = endBefore h b x xs"


text \<open>The constraint that a call describes.\<close>

fun definition_of :: "query_method \<Rightarrow> QueryConstraintDefinition" where
  "definition_of (M_where f opStr v) = WhereConstraint f opStr v"
| "definition_of (M_orderBy f d) = OrderByConstraint f (case d of None \<Rightarrow> Asc | Some d' \<Rightarrow> d')"
| "definition_of (M_limit n) = LimitConstraint T_limit n"
| "definition_of (M_limitToLast n) = LimitConstraint T_limitToLast n"
| "definition_of (M_startAt x xs) = CursorConstraint T_startAt x xs"
| "definition_of (M_startAfter x xs) = CursorConstraint T_startAfter x xs"
| "definition_of (M_endAt x xs) = CursorConstraint T_endAt x xs"
| "definition_of (M_endBefore x xs) = CursorConstraint T_endBefore x xs"


text \<open>A call of one of the update builder's chain methods, its path and what it installs.\<close>

datatype update_method =
    M_set string jsval
  | M_increment string int
  | M_arrayUnion string "jsval list"
  | M_arrayRemove string "jsval list"
  | M_serverTimestamp string
  | M_deleteField string

fun call_update :: "heap \<Rightarrow> addr \<Rightarrow> update_method \<Rightarrow> (heap \<times> addr) option" where
  "call_update h b (M_set p v) = p_set h b p v"
| "call_update h b (M_increment p n) = p_increment h b p n"
| "call_update h b (M_arrayUnion p vs) = p_arrayUnion h b p vs"
| "call_update h b (M_arrayRemove p vs) = p_arrayRemove h b p vs"
| "call_update h b (M_serverTimestamp p) = p_serverTimestamp h b p"
| "call_update h b (M_deleteField p) = p_deleteField h b p"

fun path_of :: "update_method \<Rightarrow> string" where
  "path_of (M_set p v) = p"
| "path_of (M_increment p n) = p"
| "path_of (M_arrayUnion p vs) = p"
| "path_of (M_arrayRemove p vs) = p"
| "path_of (M_serverTimestamp p) = p"
| "path_of (M_deleteField p) = p"

fun operation_of :: "update_method \<Rightarrow> jsval" where
  "operation_of (M_set p v) = v"
| "operation_of (M_increment p n) = FV_increment n"
| "operation_of (M_arrayUnion p vs) = FV_arrayUnion vs"
| "operation_of (M_arrayRemove p vs) = FV_arrayRemove vs"
| "operation_of (M_serverTimestamp p) = FV_serverTimestamp"
| "operation_of (M_deleteField p) = FV_deleteField"

text \<open>The entries of an object under one name.\<close>

definition entries_for :: "string \<Rightarrow> js_object \<Rightarrow> (string \<times> jsval) list" where
  "entries_for p obj = filter (\<lambda>e. fst e = p) obj"


text \<open>
  A schema entry for which \<open>applyDefaults\<close> has to ask the store for the server-timestamp
  sentinel, given the payload: its default is the string \<^verbatim>\<open>'serverTimestamp'\<close> and the
  payload reads as \<^verbatim>\<open>undefined\<close> at its name.
\<close>

definition wants_timestamp :: "js_object \<Rightarrow> string \<times> FieldSchema \<Rightarrow> bool" where
  "wants_timestamp data e =
     (defaultValue (snd e) = JStr ''serverTimestamp'' \<and> js_get data (fst e) = JUndefined)"

section \<open>Fixtures\<close>

text \<open>
  The store, schemas and receivers of the repository's test suite, for the concrete
  instances below: a store that accepts every write and knows one document, the schema
  with a server-timestamp default, and the schema with one complete and one class-less
  sub-collection entry.
\<close>

definition test_store :: store where
  "test_store =
     \<lparr>addDoc = (\<lambda>r d. Inr (Document r ''new-id'')),
      setDoc = (\<lambda>r d opts. Inr ()),
      deleteDoc = (\<lambda>r. Inr ()),
      getDoc = (\<lambda>r. if r = Document (Collection (Firestore ''db'') ''test-collection'') ''test-doc-id''
                     then Inr \<lparr>snap_exists = True,
                               snap_data = JObj [(''name'', JStr ''Fetched User''), (''age'', JNum 40)]\<rparr>
                     else Inr \<lparr>snap_exists = False, snap_data = JUndefined\<rparr>),
      updateDoc = (\<lambda>r d. Inr ()),
      ref_id = (\<lambda>r. case r of Collection p c \<Rightarrow> c | _ \<Rightarrow> [])\<rparr>"

text \<open>
  A library with the two checks that bear on the statements below: a limit must be
  positive, and the id of a document or collection must not be empty.
\<close>

definition test_library :: library where
  "test_library =
     \<lparr>constraint_refused =
        (\<lambda>c. case c of
               N_limit n \<Rightarrow> if n \<le> 0 then Some ''limit requires a positive number'' else None
             | N_limitToLast n \<Rightarrow>
                 if n \<le> 0 then Some ''limitToLast requires a positive number'' else None
             | _ \<Rightarrow> None),
      query_refused = (\<lambda>q. None),
      doc_refused = (\<lambda>r i. if i = [] then Some ''invalid document reference'' else None),
      collection_refused =
        (\<lambda>r c. if c = [] then Some ''invalid collection reference'' else None)\<rparr>"

definition schemaWithDefault :: CollectionSchema where
  "schemaWithDefault =
     CollectionSchema [(''createdAt'', FieldSchema (JStr ''serverTimestamp''))] None"

definition schemaWithLiteral :: CollectionSchema where
  "schemaWithLiteral =
     CollectionSchema
       [(''createdAt'', FieldSchema (JStr ''serverTimestamp'')),
        (''count'', FieldSchema (JNum 0))] None"

definition schemaWithInheritedName :: CollectionSchema where
  "schemaWithInheritedName =
     CollectionSchema [(''constructor'', FieldSchema (JStr ''serverTimestamp''))] None"

definition fullSchema :: CollectionSchema where
  "fullSchema =
     CollectionSchema [(''name'', FieldSchema JUndefined)]
       (Some [(''sub-items'',
               Some (CollectionSchema [(''value'', FieldSchema JUndefined)] None),
               Some (Class ''MockSubCollection'')),
              (''no-class'', None, None)])"

definition test_collection :: "CollectionSchema option \<Rightarrow> collection_ref" where
  "test_collection sc =
     \<lparr>cls = Class ''ClientBaseCollectionRef'',
      ref = Collection (Firestore ''db'') ''test-collection'',
      firestore = Firestore ''db'',
      collectionId = ''test-collection'',
      schema = sc\<rparr>"

definition test_docRef :: native_ref where
  "test_docRef = Document (Collection (Firestore ''db'') ''test-collection'') ''doc-1''"

definition test_query_heap :: heap where
  "test_query_heap =
     fst (new_QueryBuilder [] (Firestore ''db'') (Collection (Firestore ''db'') ''test-collection''))"

definition test_update_heap :: heap where
  "test_update_heap = fst (new_UpdateBuilder [] test_docRef)"

lemmas test_defs = test_store_def test_library_def schemaWithDefault_def schemaWithLiteral_def
  schemaWithInheritedName_def fullSchema_def test_collection_def test_docRef_def
  test_query_heap_def test_update_heap_def

lemmas heap_defs = new_QueryBuilder_def new_UpdateBuilder_def alloc_def store_at_def lookup_def
  constraintDefinitions_def updateData_def docRef_of_def addConstraintDefinition_def p_set_def


section \<open>Facts about objects and the heap\<close>

lemma js_get_put: "js_get (js_put k v obj) k' = (if k' = k then v else js_get obj k')"
  by (induction obj) auto

lemma js_keys_put:
  "js_keys (js_put k v obj) = (if k \<in> set (js_keys obj) then js_keys obj else js_keys obj @ [k])"
  by (induction obj) (force simp: js_keys_def)+

lemma js_in_keys: "js_in k obj \<longleftrightarrow> k \<in> set (js_keys obj)"
  by (induction obj) (auto simp: js_keys_def)



lemma not_inherited_merge: "''merge'' \<notin> set inherited_names"
  by (simp add: inherited_names_def)

lemma not_inherited_mergeFields: "''mergeFields'' \<notin> set inherited_names"
  by (simp add: inherited_names_def)

lemma entries_for_absent: "k \<notin> set (js_keys obj) \<Longrightarrow> entries_for k obj = []"
  by (induction obj) (auto simp: js_keys_def entries_for_def)

lemma entries_for_put:
  "distinct (js_keys obj) \<Longrightarrow> entries_for k (js_put k v obj) = [(k, v)]"
proof (induction obj)
  case Nil
  then show ?case by (simp add: entries_for_def)
next
  case (Cons e obj)
  obtain k' v' where e: "e = (k', v')" by (cases e)
  show ?case
  proof (cases "k' = k")
    case True
    with Cons.prems e have "k \<notin> set (js_keys obj)" by (simp add: js_keys_def)
    then have "entries_for k obj = []" by (rule entries_for_absent)
    with True e show ?thesis by (simp add: entries_for_def)
  next
    case False
    with Cons e show ?thesis by (simp add: entries_for_def js_keys_def)
  qed
qed

lemma entries_for_put_other:
  "k' \<noteq> k \<Longrightarrow> entries_for k' (js_put k v obj) = entries_for k' obj"
  by (induction obj) (auto simp: entries_for_def)

lemma lookup_append_old: "a < length h \<Longrightarrow> lookup (h @ ext) a = lookup h a"
  by (simp add: lookup_def nth_append)

lemma lookup_Some_valid: "lookup h a = Some ob \<Longrightarrow> a < length h"
  by (simp add: lookup_def split: if_splits)

subsection \<open>Query builders in the heap\<close>

lemma constraintDefinitions_SomeD:
  "constraintDefinitions h b = Some cs \<Longrightarrow>
     \<exists>fs cr arr. lookup h b = Some (QueryBuilderObj fs cr arr) \<and> lookup h arr = Some (ArrayObj cs)"
  by (auto simp: constraintDefinitions_def split: option.splits obj.splits)

lemma constraintDefinitions_append:
  assumes "constraintDefinitions h b = Some cs"
  shows "constraintDefinitions (h @ ext) b = Some cs"
proof -
  from assms obtain fs cr arr where
    b: "lookup h b = Some (QueryBuilderObj fs cr arr)" and a: "lookup h arr = Some (ArrayObj cs)"
    using constraintDefinitions_SomeD by blast
  have "lookup (h @ ext) b = Some (QueryBuilderObj fs cr arr)"
    using b lookup_Some_valid lookup_append_old by metis
  moreover have "lookup (h @ ext) arr = Some (ArrayObj cs)"
    using a lookup_Some_valid lookup_append_old by metis
  ultimately show ?thesis by (simp add: constraintDefinitions_def)
qed

lemma constraintDefinitions_new:
  "constraintDefinitions (h @ [QueryBuilderObj fs cr (Suc (length h)), ArrayObj cs]) (length h)
     = Some cs"
  by (simp add: constraintDefinitions_def lookup_def nth_append)

text \<open>What \<open>addConstraintDefinition\<close> leaves behind: two new objects, nothing else touched.\<close>

lemma addConstraintDefinition_result:
  assumes "lookup h this = Some (QueryBuilderObj fs cr arr)"
    and "lookup h arr = Some (ArrayObj ds)"
  shows "addConstraintDefinition h this d =
           Some (h @ [QueryBuilderObj fs cr (Suc (length h)), ArrayObj (ds @ [d])], length h)"
  using assms by (simp add: addConstraintDefinition_def alloc_def store_at_def)

lemma call_query_add: "call_query h b m = addConstraintDefinition h b (definition_of m)"
  by (cases m)
     (simp_all add: p_where_def orderBy_def limit_def limitToLast_def startAt_def
        startAfter_def endAt_def endBefore_def)

lemma call_query_result:
  assumes "lookup h b = Some (QueryBuilderObj fs cr arr)"
    and "lookup h arr = Some (ArrayObj cs)"
  shows "call_query h b m =
           Some (h @ [QueryBuilderObj fs cr (Suc (length h)), ArrayObj (cs @ [definition_of m])],
                 length h)"
  using assms by (simp add: call_query_add addConstraintDefinition_result)







subsection \<open>Update builders in the heap\<close>

lemma updateData_SomeD:
  "updateData h b = Some upd \<Longrightarrow>
     \<exists>docRef d. lookup h b = Some (UpdateBuilderObj docRef d) \<and> lookup h d = Some (RecordObj upd)"
  by (auto simp: updateData_def split: option.splits obj.splits)

lemma updateData_append:
  assumes "updateData h b = Some upd"
  shows "updateData (h @ ext) b = Some upd"
proof -
  from assms obtain docRef d where
    b: "lookup h b = Some (UpdateBuilderObj docRef d)" and d: "lookup h d = Some (RecordObj upd)"
    using updateData_SomeD by blast
  have "lookup (h @ ext) b = Some (UpdateBuilderObj docRef d)"
    using b lookup_Some_valid lookup_append_old by metis
  moreover have "lookup (h @ ext) d = Some (RecordObj upd)"
    using d lookup_Some_valid lookup_append_old by metis
  ultimately show ?thesis by (simp add: updateData_def)
qed

lemma updateData_new:
  "updateData (h @ [UpdateBuilderObj docRef (Suc (length h)), RecordObj upd]) (length h) = Some upd"
  by (simp add: updateData_def lookup_def nth_append)

lemma p_set_result:
  assumes "lookup h this = Some (UpdateBuilderObj docRef d)"
    and "lookup h d = Some (RecordObj upd)"
  shows "p_set h this p v =
           Some (h @ [UpdateBuilderObj docRef (Suc (length h)), RecordObj (js_put p v upd)], length h)"
  using assms by (simp add: p_set_def alloc_def store_at_def)

lemma call_update_set: "call_update h b u = p_set h b (path_of u) (operation_of u)"
  by (cases u)
     (simp_all add: p_increment_def p_arrayUnion_def p_arrayRemove_def p_serverTimestamp_def
        p_deleteField_def p_getIncrementFieldValue_def p_getArrayUnionFieldValue_def
        p_getArrayRemoveFieldValue_def p_getServerTimestampFieldValue_def p_getDeleteFieldValue_def)

lemma call_update_result:
  assumes "updateData h b = Some upd"
  shows "\<exists>docRef. call_update h b u =
           Some (h @ [UpdateBuilderObj docRef (Suc (length h)),
                      RecordObj (js_put (path_of u) (operation_of u) upd)], length h)"
  using updateData_SomeD [OF assms] by (auto simp: call_update_set p_set_result)

subsection \<open>The loop of \<open>applyDefaults\<close>\<close>

lemma loop_keeps_defined:
  "js_get d k \<noteq> JUndefined \<Longrightarrow> js_get (fst (applyDefaults_loop fs d tr)) k = js_get d k"
proof (induction fs d tr rule: applyDefaults_loop.induct)
  case (1 d tr)
  then show ?case by simp
next
  case (2 fieldName fieldDef rest d tr)
  then show ?case by (auto simp: js_get_put)
qed

lemma loop_fills_defaults:
  "(f, fd) \<in> set fs \<Longrightarrow> defaultValue fd \<noteq> JUndefined
     \<Longrightarrow> js_get (fst (applyDefaults_loop fs d tr)) f \<noteq> JUndefined"
proof (induction fs d tr rule: applyDefaults_loop.induct)
  case (1 d tr)
  then show ?case by simp
next
  case (2 fieldName fieldDef rest d tr)
  show ?case
  proof (cases "(f, fd) = (fieldName, fieldDef)")
    case True
    then show ?thesis using "2.prems"
      by (auto simp: loop_keeps_defined js_get_put)
  next
    case False
    then have "(f, fd) \<in> set rest" using "2.prems" by auto
    then show ?thesis using "2.IH" "2.prems" by auto
  qed
qed

lemma loop_nothing_to_do:
  "\<forall>(f, fd) \<in> set fs. defaultValue fd \<noteq> JUndefined \<longrightarrow> js_get d f \<noteq> JUndefined
     \<Longrightarrow> applyDefaults_loop fs d tr = (d, tr)"
  by (induction fs d tr rule: applyDefaults_loop.induct) auto

lemma loop_idempotent:
  "applyDefaults_loop fs (fst (applyDefaults_loop fs d tr)) tr'
     = (fst (applyDefaults_loop fs d tr), tr')"
  by (rule loop_nothing_to_do) (auto simp: loop_fills_defaults)

lemma loop_trace_prefix:
  "\<exists>ext. snd (applyDefaults_loop fs d tr) = tr @ ext \<and> set ext \<subseteq> {Call_serverTimestamp}"
proof (induction fs d tr rule: applyDefaults_loop.induct)
  case (1 d tr)
  then show ?case by simp
next
  case (2 fieldName fieldDef rest d tr)
  then show ?case by (auto split: if_splits)
qed

lemma filter_wants_put:
  "k \<notin> fst ` set fs \<Longrightarrow>
     filter (wants_timestamp (js_put k v d)) fs = filter (wants_timestamp d) fs"
  by (rule filter_cong) (auto simp: wants_timestamp_def js_get_put)

lemma loop_trace_count:
  "distinct (map fst fs) \<Longrightarrow>
     length (snd (applyDefaults_loop fs d tr)) = length tr + length (filter (wants_timestamp d) fs)"
proof (induction fs d tr rule: applyDefaults_loop.induct)
  case (1 d tr)
  then show ?case by simp
next
  case (2 fieldName fieldDef rest d tr)
  then have nin: "fieldName \<notin> fst ` set rest" and dist: "distinct (map fst rest)" by auto
  have hd: "wants_timestamp d (fieldName, fieldDef) \<longleftrightarrow>
              defaultValue fieldDef = JStr ''serverTimestamp'' \<and> js_get d fieldName = JUndefined"
    by (simp add: wants_timestamp_def)
  show ?case using "2.IH" dist filter_wants_put [OF nin]
    by (auto simp: hd)
qed


lemma loop_injects_default:
  "map_of fs f = Some fd \<Longrightarrow> defaultValue fd \<noteq> JUndefined \<Longrightarrow> js_get d f = JUndefined
     \<Longrightarrow> js_get (fst (applyDefaults_loop fs d tr)) f
           = (if defaultValue fd = JStr ''serverTimestamp'' then FV_serverTimestamp
              else defaultValue fd)"
proof (induction fs d tr rule: applyDefaults_loop.induct)
  case (1 d tr)
  then show ?case by simp
next
  case (2 fieldName fieldDef rest d tr)
  show ?case
  proof (cases "fieldName = f")
    case True
    with "2.prems" have "fieldDef = fd" by simp
    with True "2.prems" show ?thesis
      by (simp add: loop_keeps_defined js_get_put)
  next
    case False
    with "2.prems" have m: "map_of rest f = Some fd" by simp
    from False "2.prems" show ?thesis
      using "2.IH"(1) [OF _ m] "2.IH"(2) [OF _ _ m] "2.IH"(3) [OF _ _ m]
      by (auto simp: js_get_put)
  qed
qed


lemma loop_untouched_without_default:
  "\<forall>fd. (k, fd) \<in> set fs \<longrightarrow> defaultValue fd = JUndefined
     \<Longrightarrow> js_get (fst (applyDefaults_loop fs d tr)) k = js_get d k"
proof (induction fs d tr rule: applyDefaults_loop.induct)
  case (1 d tr)
  then show ?case by simp
next
  case (2 fieldName fieldDef rest d tr)
  then show ?case by (auto simp: js_get_put)
qed

lemma applyDefaults_trace_only_factory:
  "set (snd (applyDefaults this data)) \<subseteq> {Call_serverTimestamp}"
proof (cases "schema this")
  case None
  then show ?thesis by (simp add: applyDefaults_def)
next
  case (Some sc)
  from loop_trace_prefix [of "CollectionSchema.fields sc" data "[]"] Some
  show ?thesis by (auto simp: applyDefaults_def)
qed

section \<open>The claims\<close>

subsection \<open>C1: \<open>set\<close> and the merge options\<close>

text \<open>
  Claim C1 says that \<open>set\<close> applies the schema defaults exactly when the write is not a
  merge: with no options, or with \<^verbatim>\<open>merge\<close> explicitly false and no list of merge
  fields, the omitted fields with defaults are injected before the store's set call; with
  \<^verbatim>\<open>merge: true\<close> or a list of merge fields the payload is passed unchanged.

  The code tests \<^verbatim>\<open>merge\<close> by its value and \<^verbatim>\<open>mergeFields\<close> with the \<^verbatim>\<open>in\<close>
  operator. With the schema that gives \<^verbatim>\<open>createdAt\<close> the server timestamp and
  \<^verbatim>\<open>count\<close> the literal 0, and the payload \<^verbatim>\<open>{name: 'a'}\<close>:
  \<^item> with no options, and with \<^verbatim>\<open>{merge: false}\<close>, the sentinel is asked for and the
    store's set call carries \<^verbatim>\<open>createdAt\<close> and \<^verbatim>\<open>count\<close>;
  \<^item> with \<^verbatim>\<open>{merge: true}\<close>, and with \<^verbatim>\<open>{mergeFields: ['name']}\<close>, the call carries the
    payload as given;
  \<^item> with \<^verbatim>\<open>{merge: false, mergeFields: undefined}\<close>, options whose \<^verbatim>\<open>merge\<close> is
    explicitly false and that carry no list of merge fields, the call carries the payload
    as given as well: no default is injected, against the claim.
\<close>

theorem set_skips_defaults_for_undefined_mergeFields:
  "coll_set test_store (test_collection (Some schemaWithLiteral)) ''set-doc-id''
       [(''name'', JStr ''a'')] None =
     ([Call_doc (Collection (Firestore ''db'') ''test-collection'') ''set-doc-id'',
       Call_serverTimestamp,
       Call_setDoc (Document (Collection (Firestore ''db'') ''test-collection'') ''set-doc-id'')
         [(''name'', JStr ''a''), (''createdAt'', FV_serverTimestamp), (''count'', JNum 0)] []],
      Inr ())
   \<and> coll_set test_store (test_collection (Some schemaWithLiteral)) ''set-doc-id''
       [(''name'', JStr ''a'')] (Some [(''merge'', JBool False)]) =
     ([Call_doc (Collection (Firestore ''db'') ''test-collection'') ''set-doc-id'',
       Call_serverTimestamp,
       Call_setDoc (Document (Collection (Firestore ''db'') ''test-collection'') ''set-doc-id'')
         [(''name'', JStr ''a''), (''createdAt'', FV_serverTimestamp), (''count'', JNum 0)]
         [(''merge'', JBool False)]],
      Inr ())
   \<and> coll_set test_store (test_collection (Some schemaWithLiteral)) ''set-doc-id''
       [(''name'', JStr ''a'')] (Some [(''merge'', JBool True)]) =
     ([Call_doc (Collection (Firestore ''db'') ''test-collection'') ''set-doc-id'',
       Call_setDoc (Document (Collection (Firestore ''db'') ''test-collection'') ''set-doc-id'')
         [(''name'', JStr ''a'')] [(''merge'', JBool True)]],
      Inr ())
   \<and> coll_set test_store (test_collection (Some schemaWithLiteral)) ''set-doc-id''
       [(''name'', JStr ''a'')] (Some [(''mergeFields'', JArr [JStr ''name''])]) =
     ([Call_doc (Collection (Firestore ''db'') ''test-collection'') ''set-doc-id'',
       Call_setDoc (Document (Collection (Firestore ''db'') ''test-collection'') ''set-doc-id'')
         [(''name'', JStr ''a'')] [(''mergeFields'', JArr [JStr ''name''])]],
      Inr ())
   \<and> js_get [(''merge'', JBool False), (''mergeFields'', JUndefined)] ''merge'' = JBool False
   \<and> js_get [(''merge'', JBool False), (''mergeFields'', JUndefined)] ''mergeFields'' = JUndefined
   \<and> coll_set test_store (test_collection (Some schemaWithLiteral)) ''set-doc-id''
       [(''name'', JStr ''a'')] (Some [(''merge'', JBool False), (''mergeFields'', JUndefined)]) =
     ([Call_doc (Collection (Firestore ''db'') ''test-collection'') ''set-doc-id'',
       Call_setDoc (Document (Collection (Firestore ''db'') ''test-collection'') ''set-doc-id'')
         [(''name'', JStr ''a'')] [(''merge'', JBool False), (''mergeFields'', JUndefined)]],
      Inr ())"
  by (simp add: test_defs applyDefaults_def coll_set_def coll_doc_def isMerge_def js_has_def
        inherited_names_def)

subsection \<open>C2: chain methods return a new builder and leave the receiver alone\<close>

text \<open>
  Claim C2. For every query builder \<open>b\<close> with accumulated sequence \<open>cs\<close> and every call \<open>m\<close>
  of one of its eight chain methods, and for every update builder \<open>b\<close> with accumulated
  record \<open>upd\<close> and every call \<open>u\<close> of one of its six chain methods: the call returns a
  builder at an address that was not allocated before (so it is distinct from \<open>b\<close> and from
  every other object), holding the extended sequence or record; the sequence or record
  read through \<open>b\<close> is the same after the call as before; and no object that existed before
  the call has changed.
\<close>

theorem chain_methods_return_new_builder:
  "(constraintDefinitions h b = Some cs
      \<longrightarrow> (\<exists>h' b'. call_query h b m = Some (h', b') \<and> b' \<noteq> b \<and> lookup h b' = None
             \<and> constraintDefinitions h' b' = Some (cs @ [definition_of m])
             \<and> constraintDefinitions h' b = Some cs
             \<and> take (length h) h' = h))
   \<and> (updateData h b = Some upd
      \<longrightarrow> (\<exists>h' b'. call_update h b u = Some (h', b') \<and> b' \<noteq> b \<and> lookup h b' = None
             \<and> updateData h' b' = Some (js_put (path_of u) (operation_of u) upd)
             \<and> updateData h' b = Some upd
             \<and> take (length h) h' = h))"
proof (intro conjI impI)
  assume q: "constraintDefinitions h b = Some cs"
  then obtain fs cr arr where
    b: "lookup h b = Some (QueryBuilderObj fs cr arr)" and a: "lookup h arr = Some (ArrayObj cs)"
    using constraintDefinitions_SomeD by blast
  have lt: "b < length h" using b by (rule lookup_Some_valid)
  let ?ext = "[QueryBuilderObj fs cr (Suc (length h)), ArrayObj (cs @ [definition_of m])]"
  have r: "call_query h b m = Some (h @ ?ext, length h)"
    using b a by (rule call_query_result)
  have old: "constraintDefinitions (h @ ?ext) b = Some cs"
    using q by (rule constraintDefinitions_append)
  have new: "constraintDefinitions (h @ ?ext) (length h) = Some (cs @ [definition_of m])"
    by (rule constraintDefinitions_new)
  have fresh: "lookup h (length h) = None" by (simp add: lookup_def)
  show "\<exists>h' b'. call_query h b m = Some (h', b') \<and> b' \<noteq> b \<and> lookup h b' = None
          \<and> constraintDefinitions h' b' = Some (cs @ [definition_of m])
          \<and> constraintDefinitions h' b = Some cs \<and> take (length h) h' = h"
    using r lt old new fresh by simp
next
  assume u: "updateData h b = Some upd"
  then obtain docRef d where b: "lookup h b = Some (UpdateBuilderObj docRef d)"
    using updateData_SomeD by blast
  have lt: "b < length h" using b by (rule lookup_Some_valid)
  from call_update_result [OF u, of u] obtain dr where
    r: "call_update h b u =
          Some (h @ [UpdateBuilderObj dr (Suc (length h)),
                     RecordObj (js_put (path_of u) (operation_of u) upd)], length h)"
    by blast
  let ?ext = "[UpdateBuilderObj dr (Suc (length h)),
               RecordObj (js_put (path_of u) (operation_of u) upd)]"
  have old: "updateData (h @ ?ext) b = Some upd"
    using u by (rule updateData_append)
  have new: "updateData (h @ ?ext) (length h) = Some (js_put (path_of u) (operation_of u) upd)"
    by (rule updateData_new)
  have fresh: "lookup h (length h) = None" by (simp add: lookup_def)
  show "\<exists>h' b'. call_update h b u = Some (h', b') \<and> b' \<noteq> b \<and> lookup h b' = None
          \<and> updateData h' b' = Some (js_put (path_of u) (operation_of u) upd)
          \<and> updateData h' b = Some upd \<and> take (length h) h' = h"
    using r lt old new fresh by simp
qed

text \<open>
  A query builder and an update builder fresh from their constructors, each at address 1:
  \<^verbatim>\<open>limit(5)\<close> and \<^verbatim>\<open>_increment('count', 5)\<close> return another address and leave the
  receiver's empty sequence and empty record as they were.
\<close>

theorem chain_methods_return_new_builder_witness:
  "constraintDefinitions test_query_heap 1 = Some []
   \<and> (\<exists>h' b'. call_query test_query_heap 1 (M_limit 5) = Some (h', b') \<and> b' \<noteq> 1
         \<and> constraintDefinitions h' b' = Some [LimitConstraint T_limit 5]
         \<and> constraintDefinitions h' 1 = Some [])
   \<and> updateData test_update_heap 1 = Some []
   \<and> (\<exists>h' b'. call_update test_update_heap 1 (M_increment ''count'' 5) = Some (h', b') \<and> b' \<noteq> 1
         \<and> updateData h' b' = Some [(''count'', FV_increment 5)]
         \<and> updateData h' 1 = Some [])"
proof -
  have q: "constraintDefinitions test_query_heap 1 = Some []"
    by (simp add: test_defs heap_defs)
  have u: "updateData test_update_heap 1 = Some []"
    by (simp add: test_defs heap_defs)
  show ?thesis
    using q u
      chain_methods_return_new_builder
        [of test_query_heap 1 "[]" "M_limit 5" "[]" "M_increment ''count'' 5"]
      chain_methods_return_new_builder
        [of test_update_heap 1 "[]" "M_limit 5" "[]" "M_increment ''count'' 5"]
    by auto
qed

subsection \<open>C3: compiling keeps the order of the constraints\<close>




subsection \<open>C4: a later operation at a path replaces the earlier one\<close>

text \<open>
  Claim C4. For every update builder whose record \<open>upd\<close> has one entry per name, and every
  call \<open>u\<close> of a chain method at a path that \<open>upd\<close> already has: the returned builder's record
  has exactly one entry for that path, holding what \<open>u\<close> installs; it has the same names as
  \<open>upd\<close>, in the same order; and its entries under every other name are those of \<open>upd\<close>.
\<close>

theorem later_operation_replaces_earlier:
  assumes "updateData h b = Some upd" and "distinct (js_keys upd)" and "js_in (path_of u) upd"
  shows "\<exists>h' b' upd'. call_update h b u = Some (h', b') \<and> updateData h' b' = Some upd'
           \<and> entries_for (path_of u) upd' = [(path_of u, operation_of u)]
           \<and> js_keys upd' = js_keys upd
           \<and> (\<forall>k. k \<noteq> path_of u \<longrightarrow> entries_for k upd' = entries_for k upd)"
proof -
  from call_update_result [OF assms(1), of u] obtain docRef where
    r: "call_update h b u =
          Some (h @ [UpdateBuilderObj docRef (Suc (length h)),
                     RecordObj (js_put (path_of u) (operation_of u) upd)], length h)"
    by blast
  let ?upd' = "js_put (path_of u) (operation_of u) upd"
  have "entries_for (path_of u) ?upd' = [(path_of u, operation_of u)]"
    using assms(2) by (rule entries_for_put)
  moreover have "js_keys ?upd' = js_keys upd"
    using assms(3) by (simp add: js_keys_put js_in_keys)
  moreover have "\<forall>k. k \<noteq> path_of u \<longrightarrow> entries_for k ?upd' = entries_for k upd"
    by (simp add: entries_for_put_other)
  ultimately show ?thesis using r updateData_new by blast
qed

text \<open>
  \<^verbatim>\<open>_set('x', 1)._set('x', 2)\<close> on a new builder: the first call returns the builder at
  address 2 with the record \<^verbatim>\<open>{x: 1}\<close>, and the second call, made on it, returns a
  builder whose record is \<^verbatim>\<open>{x: 2}\<close> and nothing else.
\<close>

theorem later_operation_replaces_earlier_witness:
  "(\<exists>h1. call_update test_update_heap 1 (M_set ''x'' (JNum 1)) = Some (h1, 2)
      \<and> updateData h1 2 = Some [(''x'', JNum 1)]
      \<and> distinct (js_keys [(''x'', JNum 1)])
      \<and> js_in (path_of (M_set ''x'' (JNum 2))) [(''x'', JNum 1)]
      \<and> (\<exists>h' b'. call_update h1 2 (M_set ''x'' (JNum 2)) = Some (h', b')
             \<and> updateData h' b' = Some [(''x'', JNum 2)]
             \<and> entries_for ''x'' [(''x'', JNum 2)] = [(''x'', JNum 2)]))"
proof -
  let ?h1 = "test_update_heap @ [UpdateBuilderObj test_docRef 3, RecordObj [(''x'', JNum 1)]]"
  have s1: "call_update test_update_heap 1 (M_set ''x'' (JNum 1)) = Some (?h1, 2)"
    by (simp add: test_defs heap_defs)
  have u1: "updateData ?h1 2 = Some [(''x'', JNum 1)]"
    by (simp add: test_defs heap_defs)
  have d1: "distinct (js_keys [(''x'', JNum 1)])"
    by (simp add: js_keys_def)
  have i1: "js_in (path_of (M_set ''x'' (JNum 2))) [(''x'', JNum 1)]"
    by simp
  from later_operation_replaces_earlier [OF u1 d1 i1] obtain h' b' upd' where
    r: "call_update ?h1 2 (M_set ''x'' (JNum 2)) = Some (h', b')"
      "updateData h' b' = Some upd'"
      "entries_for ''x'' upd' = [(''x'', JNum 2)]"
      "js_keys upd' = js_keys [(''x'', JNum 1)]"
    by auto
  from arg_cong [OF r(4), of length] have "length upd' = 1" by (simp add: js_keys_def)
  then obtain e where "upd' = [e]" by (cases upd') auto
  with r(3) have "upd' = [(''x'', JNum 2)]"
    by (simp add: entries_for_def split: if_splits)
  with r s1 u1 d1 i1 show ?thesis by (auto simp: entries_for_def)
qed

subsection \<open>C5: \<open>commit\<close> with and without accumulated operations\<close>

text \<open>
  Claim C5. For every update builder with document handle \<open>docRef\<close> and record \<open>upd\<close>: when
  \<open>upd\<close> is empty, \<open>commit\<close> makes no call to the store and resolves; when \<open>upd\<close> is not
  empty, the calls it makes to the store are exactly one \<^verbatim>\<open>updateDoc\<close> on \<open>docRef\<close> with
  the whole of \<open>upd\<close>, and it settles as that call does.
\<close>

theorem commit_calls:
  assumes "updateData h b = Some upd" and "docRef_of h b = Some docRef"
  shows "\<exists>tr r. commit S h b = Some (tr, r)
           \<and> (upd = [] \<longrightarrow> filter is_store_call tr = [] \<and> r = Inr ())
           \<and> (upd \<noteq> [] \<longrightarrow> filter is_store_call tr = [Call_updateDoc docRef upd]
                 \<and> r = updateDoc S docRef upd)"
proof -
  from assms(1) obtain dr d where
    b: "lookup h b = Some (UpdateBuilderObj dr d)" and d: "lookup h d = Some (RecordObj upd)"
    using updateData_SomeD by blast
  from b assms(2) have "dr = docRef" by (simp add: docRef_of_def)
  with b d show ?thesis by (simp add: commit_def js_keys_def)
qed

text \<open>
  A new builder commits with a warning and no store call; the builder returned by
  \<^verbatim>\<open>_set('name', 'Final Name')\<close> commits with one \<^verbatim>\<open>updateDoc\<close> carrying that record.
\<close>

theorem commit_calls_witness:
  "updateData test_update_heap 1 = Some []
   \<and> docRef_of test_update_heap 1 = Some test_docRef
   \<and> commit test_store test_update_heap 1
       = Some ([Console_warn ''Update commit called with no changes specified.''], Inr ())
   \<and> (\<exists>h1. call_update test_update_heap 1 (M_set ''name'' (JStr ''Final Name'')) = Some (h1, 2)
        \<and> updateData h1 2 = Some [(''name'', JStr ''Final Name'')]
        \<and> docRef_of h1 2 = Some test_docRef
        \<and> (\<exists>tr. commit test_store h1 2 = Some (tr, Inr ())
              \<and> filter is_store_call tr
                  = [Call_updateDoc test_docRef [(''name'', JStr ''Final Name'')]]))"
proof -
  let ?h1 = "test_update_heap
               @ [UpdateBuilderObj test_docRef 3, RecordObj [(''name'', JStr ''Final Name'')]]"
  have u0: "updateData test_update_heap 1 = Some []"
    and r0: "docRef_of test_update_heap 1 = Some test_docRef"
    by (simp_all add: test_defs heap_defs)
  have s1: "call_update test_update_heap 1 (M_set ''name'' (JStr ''Final Name'')) = Some (?h1, 2)"
    by (simp add: test_defs heap_defs)
  have u1: "updateData ?h1 2 = Some [(''name'', JStr ''Final Name'')]"
    and r1: "docRef_of ?h1 2 = Some test_docRef"
    by (simp_all add: test_defs heap_defs)
  have c0: "commit test_store test_update_heap 1
              = Some ([Console_warn ''Update commit called with no changes specified.''], Inr ())"
    using commit_calls [OF u0 r0, of test_store]
    by (simp add: commit_def test_defs heap_defs js_keys_def)
  have c1: "\<exists>tr. commit test_store ?h1 2 = Some (tr, Inr ())
              \<and> filter is_store_call tr
                  = [Call_updateDoc test_docRef [(''name'', JStr ''Final Name'')]]"
    using commit_calls [OF u1 r1, of test_store]
    by (auto simp: test_store_def)
  show ?thesis using u0 r0 c0 s1 u1 r1 c1 by blast
qed

subsection \<open>C6: \<open>applyDefaults\<close> keeps supplied values and is idempotent\<close>

text \<open>
  Claim C6, as the source has it. \<open>applyDefaults\<close> tests a field of the payload with
  \<^verbatim>\<open>=== undefined\<close>, not for existence, so a property that exists and holds
  \<^verbatim>\<open>undefined\<close> counts as omitted. For every resolver and payload:
  \<^item> a field that reads as anything other than \<^verbatim>\<open>undefined\<close> reads the same in the
    result;
  \<^item> a field that reads as \<^verbatim>\<open>undefined\<close>, whether it is omitted or present and holding
    \<^verbatim>\<open>undefined\<close>, and that the schema declares with a default, holds in the result
    the server-timestamp sentinel when the default is the string \<^verbatim>\<open>'serverTimestamp'\<close>
    and the default itself otherwise;
  \<^item> the only calls made are calls of the server-timestamp factory, and, the names of the
    schema's fields being distinct, there is one call for each schema field whose default
    is \<^verbatim>\<open>'serverTimestamp'\<close> and that reads as \<^verbatim>\<open>undefined\<close> in the payload, and
    none for any other field;
  \<^item> applied to its own result, \<open>applyDefaults\<close> returns that result and calls nothing.
\<close>

theorem applyDefaults_keeps_values_and_is_idempotent:
  "(js_get data k \<noteq> JUndefined \<longrightarrow> js_get (fst (applyDefaults this data)) k = js_get data k)
   \<and> (\<forall>sc fd. schema this = Some sc \<and> map_of (CollectionSchema.fields sc) k = Some fd
          \<and> defaultValue fd \<noteq> JUndefined \<and> js_get data k = JUndefined
        \<longrightarrow> js_get (fst (applyDefaults this data)) k
              = (if defaultValue fd = JStr ''serverTimestamp'' then FV_serverTimestamp
                 else defaultValue fd))
   \<and> set (snd (applyDefaults this data)) \<subseteq> {Call_serverTimestamp}
   \<and> (\<forall>sc. schema this = Some sc \<and> distinct (map fst (CollectionSchema.fields sc))
        \<longrightarrow> length (snd (applyDefaults this data))
              = length (filter (wants_timestamp data) (CollectionSchema.fields sc)))
   \<and> applyDefaults this (fst (applyDefaults this data)) = (fst (applyDefaults this data), [])"
proof (cases "schema this")
  case None
  then show ?thesis by (simp add: applyDefaults_def)
next
  case (Some sc)
  then show ?thesis
    using loop_keeps_defined [of data k "CollectionSchema.fields sc" "[]"]
      loop_injects_default [of "CollectionSchema.fields sc" k _ data "[]"]
      loop_trace_count [of "CollectionSchema.fields sc" data "[]"]
      loop_idempotent [of "CollectionSchema.fields sc" data "[]" "[]"]
      applyDefaults_trace_only_factory [of this data]
    by (simp add: applyDefaults_def)
qed

text \<open>
  With the schema whose \<^verbatim>\<open>createdAt\<close> defaults to the server timestamp and whose
  \<^verbatim>\<open>count\<close> defaults to 0: a payload that supplies a date for \<^verbatim>\<open>createdAt\<close> and holds
  \<^verbatim>\<open>undefined\<close> for \<^verbatim>\<open>count\<close> keeps the date and gets the 0, the factory is not
  called, and a second application changes nothing; a payload that omits \<^verbatim>\<open>createdAt\<close>
  gets the sentinel with one call of the factory.
\<close>

theorem applyDefaults_keeps_values_and_is_idempotent_witness:
  "js_get [(''createdAt'', JHost 1), (''count'', JUndefined)] ''createdAt'' \<noteq> JUndefined
   \<and> js_get [(''createdAt'', JHost 1), (''count'', JUndefined)] ''count'' = JUndefined
   \<and> schema (test_collection (Some schemaWithLiteral)) = Some schemaWithLiteral
   \<and> map_of (CollectionSchema.fields schemaWithLiteral) ''count'' = Some (FieldSchema (JNum 0))
   \<and> map_of (CollectionSchema.fields schemaWithLiteral) ''createdAt''
       = Some (FieldSchema (JStr ''serverTimestamp''))
   \<and> distinct (map fst (CollectionSchema.fields schemaWithLiteral))
   \<and> js_get (fst (applyDefaults (test_collection (Some schemaWithLiteral))
                    [(''createdAt'', JHost 1), (''count'', JUndefined)])) ''createdAt'' = JHost 1
   \<and> js_get (fst (applyDefaults (test_collection (Some schemaWithLiteral))
                    [(''createdAt'', JHost 1), (''count'', JUndefined)])) ''count'' = JNum 0
   \<and> snd (applyDefaults (test_collection (Some schemaWithLiteral))
             [(''createdAt'', JHost 1), (''count'', JUndefined)]) = []
   \<and> applyDefaults (test_collection (Some schemaWithLiteral))
        (fst (applyDefaults (test_collection (Some schemaWithLiteral))
                [(''createdAt'', JHost 1), (''count'', JUndefined)]))
      = ([(''createdAt'', JHost 1), (''count'', JNum 0)], [])
   \<and> js_get [(''count'', JNum 3)] ''createdAt'' = JUndefined
   \<and> js_get (fst (applyDefaults (test_collection (Some schemaWithLiteral))
                    [(''count'', JNum 3)])) ''createdAt'' = FV_serverTimestamp
   \<and> length (snd (applyDefaults (test_collection (Some schemaWithLiteral))
                     [(''count'', JNum 3)])) = 1"
  using applyDefaults_keeps_values_and_is_idempotent
          [of "[(''createdAt'', JHost 1), (''count'', JUndefined)]" "''createdAt''"
              "test_collection (Some schemaWithLiteral)"]
        applyDefaults_keeps_values_and_is_idempotent
          [of "[(''createdAt'', JHost 1), (''count'', JUndefined)]" "''count''"
              "test_collection (Some schemaWithLiteral)"]
        applyDefaults_keeps_values_and_is_idempotent
          [of "[(''count'', JNum 3)]" "''createdAt''"
              "test_collection (Some schemaWithLiteral)"]
  by (simp add: test_defs applyDefaults_def wants_timestamp_def inherited_names_def)

text \<open>
  Claim C6, as it is worded, fails: in the payload \<^verbatim>\<open>{name: 'a', createdAt: undefined}\<close>
  the field \<^verbatim>\<open>createdAt\<close> is present, yet the result holds the server-timestamp
  sentinel in its place, and the factory has been called for it.
\<close>

theorem applyDefaults_overwrites_undefined_field:
  "js_in ''createdAt'' [(''name'', JStr ''a''), (''createdAt'', JUndefined)]
   \<and> js_get [(''name'', JStr ''a''), (''createdAt'', JUndefined)] ''createdAt'' = JUndefined
   \<and> js_get (fst (applyDefaults (test_collection (Some schemaWithDefault))
                    [(''name'', JStr ''a''), (''createdAt'', JUndefined)])) ''createdAt''
       = FV_serverTimestamp
   \<and> snd (applyDefaults (test_collection (Some schemaWithDefault))
             [(''name'', JStr ''a''), (''createdAt'', JUndefined)]) = [Call_serverTimestamp]"
  by (simp add: test_defs applyDefaults_def)

subsection \<open>C7: \<open>get\<close> returns the payload, or \<^verbatim>\<open>undefined\<close> for a missing document\<close>

text \<open>
  Claim C7. For every document id, \<open>get\<close> makes one read of the document's handle; when the
  store answers with a snapshot that exists, \<open>get\<close> resolves with the snapshot's data, and
  when it answers with a snapshot that does not exist, \<open>get\<close> resolves with
  \<^verbatim>\<open>undefined\<close>: a resolved result, not a rejection.
\<close>

theorem get_returns_payload_or_absence:
  "(getDoc S (Document (ref this) i) = Inr snapshot \<and> snap_exists snapshot
      \<longrightarrow> coll_get S this i =
            ([Call_doc (ref this) i, Call_getDoc (Document (ref this) i)], Inr (snap_data snapshot)))
   \<and> (getDoc S (Document (ref this) i) = Inr snapshot \<and> \<not> snap_exists snapshot
      \<longrightarrow> coll_get S this i =
            ([Call_doc (ref this) i, Call_getDoc (Document (ref this) i)], Inr JUndefined))"
  by (simp add: coll_get_def coll_doc_def)

text \<open>The store of the fixtures knows \<^verbatim>\<open>test-doc-id\<close> and does not know \<^verbatim>\<open>missing-id\<close>.\<close>

theorem get_returns_payload_or_absence_witness:
  "getDoc test_store (Document (ref (test_collection None)) ''test-doc-id'')
     = Inr \<lparr>snap_exists = True,
            snap_data = JObj [(''name'', JStr ''Fetched User''), (''age'', JNum 40)]\<rparr>
   \<and> snd (coll_get test_store (test_collection None) ''test-doc-id'')
       = Inr (JObj [(''name'', JStr ''Fetched User''), (''age'', JNum 40)])
   \<and> getDoc test_store (Document (ref (test_collection None)) ''missing-id'')
       = Inr \<lparr>snap_exists = False, snap_data = JUndefined\<rparr>
   \<and> snd (coll_get test_store (test_collection None) ''missing-id'') = Inr JUndefined"
  using get_returns_payload_or_absence
          [of test_store "test_collection None" "''test-doc-id''"
              "\<lparr>snap_exists = True,
                snap_data = JObj [(''name'', JStr ''Fetched User''), (''age'', JNum 40)]\<rparr>"]
        get_returns_payload_or_absence
          [of test_store "test_collection None" "''missing-id''"
              "\<lparr>snap_exists = False, snap_data = JUndefined\<rparr>"]
  by (simp add: test_defs)

subsection \<open>C8: \<open>subCollection\<close> and its configuration errors\<close>

text \<open>
  Claim C8. For every parent id and sub-collection name:
  \<^item> when the resolver has no schema, or the schema has no record of sub-collections, or
    that record has no entry under the name and the name is not an inherited one,
    \<open>subCollection\<close> throws, having called nothing, the not-found error, whose message
    quotes the name and the \<^verbatim>\<open>id\<close> of the resolver's collection handle;
  \<^item> when the entry exists and has no class, or the name is undeclared in the record and
    is an inherited one (for which the record yields the inherited member), it throws,
    having called nothing, the error for the missing class, which quotes the same two;
  \<^item> when the entry exists and has a class, it asks the library for the parent
    document's handle and then for the sub-collection's handle under it, and makes no
    call to the store. If the library refuses either, its error is thrown. On success
    the result is an instance of the entry's class at an address that was not allocated
    before, bound to that sub-collection handle.
\<close>

theorem subCollection_errors_and_result:
  "((schema this = None
      \<or> (\<exists>sc. schema this = Some sc \<and> subCollections sc = None)
      \<or> (\<exists>sc subs. schema this = Some sc \<and> subCollections sc = Some subs
            \<and> subCollectionId \<notin> fst ` set subs \<and> subCollectionId \<notin> set inherited_names))
     \<longrightarrow> subCollection L S h this parentId subCollectionId subSchema =
           ([], Inl (Error (''Sub-collection '' @ quoted subCollectionId
                            @ '' not found in schema for collection ''
                            @ quoted (ref_id S (ref this))))))
   \<and> ((\<exists>sc subs. schema this = Some sc \<and> subCollections sc = Some subs
          \<and> ((\<exists>defSchema. map_of subs subCollectionId = Some (defSchema, None))
               \<or> (subCollectionId \<notin> fst ` set subs \<and> subCollectionId \<in> set inherited_names)))
     \<longrightarrow> subCollection L S h this parentId subCollectionId subSchema =
           ([], Inl (Error (''Collection class definition missing for sub-collection ''
                            @ quoted subCollectionId @ '' in schema for collection ''
                            @ quoted (ref_id S (ref this))))))
   \<and> (\<forall>sc subs defSchema c. schema this = Some sc \<and> subCollections sc = Some subs
          \<and> map_of subs subCollectionId = Some (defSchema, Some c)
     \<longrightarrow> (\<forall>e. doc_refused L (ref this) parentId = Some e
            \<longrightarrow> subCollection L S h this parentId subCollectionId subSchema =
                  ([Call_doc (ref this) parentId], Inl (Library_error e)))
         \<and> (\<forall>e. doc_refused L (ref this) parentId = None
                \<and> collection_refused L (Document (ref this) parentId) subCollectionId = Some e
            \<longrightarrow> subCollection L S h this parentId subCollectionId subSchema =
                  ([Call_doc (ref this) parentId,
                    Call_collection (Document (ref this) parentId) subCollectionId],
                   Inl (Library_error e)))
         \<and> (doc_refused L (ref this) parentId = None
              \<and> collection_refused L (Document (ref this) parentId) subCollectionId = None
            \<longrightarrow> lookup h (length h) = None
                \<and> subCollection L S h this parentId subCollectionId subSchema =
                  ([Call_doc (ref this) parentId,
                    Call_collection (Document (ref this) parentId) subCollectionId],
                   Inr (h @ [CollectionRefObj
                               \<lparr>cls = c,
                                ref = Collection (Document (ref this) parentId) subCollectionId,
                                firestore = firestore this,
                                collectionId = subCollectionId,
                                schema = defSchema\<rparr>],
                        length h))))"
proof -
  have undeclared: "subCollectionId \<notin> fst ` set subs \<Longrightarrow> map_of subs subCollectionId = None"
    for subs :: "(string \<times> CollectionSchema option \<times> class_ref option) list"
    by (simp add: map_of_eq_None_iff)
  show ?thesis
    by (auto simp: subCollection_def subCollectionDef_def not_found_message_def
          class_missing_message_def coll_doc_def new_CollectionRef_def alloc_def lookup_def
          Let_def undeclared)
qed

text \<open>
  The resolver of \<^verbatim>\<open>test-collection\<close> with the schema of the fixtures: the name
  \<^verbatim>\<open>non-existent-sub\<close> gives the not-found message of the test suite; the undeclared
  name \<^verbatim>\<open>constructor\<close> and the entry \<^verbatim>\<open>no-class\<close> give the missing-class message;
  \<^verbatim>\<open>sub-items\<close> gives a new instance of \<^verbatim>\<open>MockSubCollection\<close> under the document
  \<^verbatim>\<open>parent-123\<close>, and the library's error for an empty parent id; without a schema
  every name gives the not-found message.
\<close>

theorem subCollection_errors_and_result_witness:
  "subCollection test_library test_store [] (test_collection None) ''parent-123'' ''sub-items''
       None
     = ([], Inl (Error
         (''Sub-collection 'sub-items' not found in schema for collection 'test-collection''
          @ [CHR 0x27])))
   \<and> ''non-existent-sub'' \<notin> fst ` set (the (subCollections fullSchema))
   \<and> ''non-existent-sub'' \<notin> set inherited_names
   \<and> subCollection test_library test_store [] (test_collection (Some fullSchema)) ''parent-123''
        ''non-existent-sub'' None
     = ([], Inl (Error
         (''Sub-collection 'non-existent-sub' not found in schema for collection 'test-collection''
          @ [CHR 0x27])))
   \<and> ''constructor'' \<notin> fst ` set (the (subCollections fullSchema))
   \<and> ''constructor'' \<in> set inherited_names
   \<and> subCollection test_library test_store [] (test_collection (Some fullSchema)) ''parent-123''
        ''constructor'' None
     = ([], Inl (Error
         (''Collection class definition missing for sub-collection 'constructor' ''
          @ ''in schema for collection 'test-collection'' @ [CHR 0x27])))
   \<and> map_of (the (subCollections fullSchema)) ''no-class'' = Some (None, None)
   \<and> subCollection test_library test_store [] (test_collection (Some fullSchema)) ''parent-123''
        ''no-class'' None
     = ([], Inl (Error
         (''Collection class definition missing for sub-collection 'no-class' ''
          @ ''in schema for collection 'test-collection'' @ [CHR 0x27])))
   \<and> map_of (the (subCollections fullSchema)) ''sub-items''
       = Some (Some (CollectionSchema [(''value'', FieldSchema JUndefined)] None),
               Some (Class ''MockSubCollection''))
   \<and> doc_refused test_library (ref (test_collection (Some fullSchema))) []
       = Some ''invalid document reference''
   \<and> subCollection test_library test_store [] (test_collection (Some fullSchema)) []
        ''sub-items'' None
     = ([Call_doc (Collection (Firestore ''db'') ''test-collection'') []],
        Inl (Library_error ''invalid document reference''))
   \<and> doc_refused test_library (ref (test_collection (Some fullSchema))) ''parent-123'' = None
   \<and> collection_refused test_library
        (Document (ref (test_collection (Some fullSchema))) ''parent-123'') ''sub-items'' = None
   \<and> subCollection test_library test_store [] (test_collection (Some fullSchema)) ''parent-123''
        ''sub-items'' None
     = ([Call_doc (Collection (Firestore ''db'') ''test-collection'') ''parent-123'',
         Call_collection
           (Document (Collection (Firestore ''db'') ''test-collection'') ''parent-123'')
           ''sub-items''],
        Inr ([CollectionRefObj
                \<lparr>cls = Class ''MockSubCollection'',
                 ref = Collection
                         (Document (Collection (Firestore ''db'') ''test-collection'')
                            ''parent-123'')
                         ''sub-items'',
                 firestore = Firestore ''db'',
                 collectionId = ''sub-items'',
                 schema = Some (CollectionSchema [(''value'', FieldSchema JUndefined)] None)\<rparr>],
             0))"
  using subCollection_errors_and_result
          [of "test_collection None" "''sub-items''" test_library test_store "[]"
              "''parent-123''" None]
        subCollection_errors_and_result
          [of "test_collection (Some fullSchema)" "''non-existent-sub''" test_library test_store
              "[]" "''parent-123''" None]
        subCollection_errors_and_result
          [of "test_collection (Some fullSchema)" "''constructor''" test_library test_store
              "[]" "''parent-123''" None]
        subCollection_errors_and_result
          [of "test_collection (Some fullSchema)" "''no-class''" test_library test_store "[]"
              "''parent-123''" None]
        subCollection_errors_and_result
          [of "test_collection (Some fullSchema)" "''sub-items''" test_library test_store "[]"
              "[]" None]
        subCollection_errors_and_result
          [of "test_collection (Some fullSchema)" "''sub-items''" test_library test_store "[]"
              "''parent-123''" None]
  by (simp add: test_defs quoted_def inherited_names_def)

subsection \<open>C9: the \<open>subSchema\<close> argument of \<open>subCollection\<close> is not used\<close>

text \<open>
  Claim C9. Two calls of \<open>subCollection\<close> that differ in the \<open>subSchema\<close> argument only
  make the same calls and have the same outcome, error or instance; and whenever a call
  succeeds, the returned instance was constructed with the store handle of the receiver,
  the sub-collection name, the nested schema of the entry declared under that name in the
  receiver's schema, and the parent document's handle.
\<close>

theorem subSchema_argument_unused:
  "subCollection L S h this parentId subCollectionId subSchema
     = subCollection L S h this parentId subCollectionId subSchema'
   \<and> (subCollection L S h this parentId subCollectionId subSchema = (tr, Inr (h', a))
      \<longrightarrow> (\<exists>sc subs defSchema c.
             schema this = Some sc \<and> subCollections sc = Some subs
             \<and> map_of subs subCollectionId = Some (defSchema, Some c)
             \<and> new_CollectionRef h c (firestore this) subCollectionId defSchema
                  (Some (Document (ref this) parentId))
                 = ([Call_collection (Document (ref this) parentId) subCollectionId], h', a)
             \<and> lookup h' a =
                 Some (CollectionRefObj
                         \<lparr>cls = c,
                          ref = Collection (Document (ref this) parentId) subCollectionId,
                          firestore = firestore this,
                          collectionId = subCollectionId,
                          schema = defSchema\<rparr>)))"
  by (auto simp: subCollection_def subCollectionDef_def coll_doc_def new_CollectionRef_def
        alloc_def lookup_def Let_def split: option.splits prod.splits if_splits)

text \<open>
  With the schema of the fixtures, \<^verbatim>\<open>sub-items\<close> is resolved the same way whether the
  caller passes no schema or some unrelated schema, and the instance carries the declared
  nested schema, not the one passed.
\<close>

theorem subSchema_argument_unused_witness:
  "subCollection test_library test_store [] (test_collection (Some fullSchema)) ''parent-123'' ''sub-items''
       (Some schemaWithDefault)
     = subCollection test_library test_store [] (test_collection (Some fullSchema)) ''parent-123''
         ''sub-items'' None
   \<and> (\<exists>tr h' a. subCollection test_library test_store [] (test_collection (Some fullSchema)) ''parent-123''
                    ''sub-items'' (Some schemaWithDefault) = (tr, Inr (h', a))
         \<and> lookup h' a =
             Some (CollectionRefObj
                     \<lparr>cls = Class ''MockSubCollection'',
                      ref = Collection
                              (Document (Collection (Firestore ''db'') ''test-collection'')
                                 ''parent-123'')
                              ''sub-items'',
                      firestore = Firestore ''db'',
                      collectionId = ''sub-items'',
                      schema = Some (CollectionSchema [(''value'', FieldSchema JUndefined)] None)\<rparr>))"
proof -
  let ?inst = "CollectionRefObj
                 \<lparr>cls = Class ''MockSubCollection'',
                  ref = Collection
                          (Document (Collection (Firestore ''db'') ''test-collection'')
                             ''parent-123'')
                          ''sub-items'',
                  firestore = Firestore ''db'',
                  collectionId = ''sub-items'',
                  schema = Some (CollectionSchema [(''value'', FieldSchema JUndefined)] None)\<rparr>"
  let ?tr = "[Call_doc (Collection (Firestore ''db'') ''test-collection'') ''parent-123'',
              Call_collection
                (Document (Collection (Firestore ''db'') ''test-collection'') ''parent-123'')
                ''sub-items'']"
  have r: "subCollection test_library test_store [] (test_collection (Some fullSchema)) ''parent-123''
             ''sub-items'' (Some schemaWithDefault) = (?tr, Inr ([?inst], 0))"
    by (simp add: test_defs subCollection_def subCollectionDef_def coll_doc_def
          new_CollectionRef_def alloc_def Let_def)
  from subSchema_argument_unused
         [of test_library test_store "[]" "test_collection (Some fullSchema)" "''parent-123''" "''sub-items''"
             "Some schemaWithDefault" None ?tr "[?inst]" 0] r
  have e: "subCollection test_library test_store [] (test_collection (Some fullSchema)) ''parent-123''
             ''sub-items'' (Some schemaWithDefault)
           = subCollection test_library test_store [] (test_collection (Some fullSchema)) ''parent-123''
               ''sub-items'' None"
    and l: "lookup [?inst] 0 = Some ?inst"
    by (auto simp: test_defs)
  show ?thesis using e r l by - (rule exI conjI | assumption)+
qed

subsection \<open>C10: the string \<^verbatim>\<open>'serverTimestamp'\<close> as a default always means the sentinel\<close>





end
